theory Spec2Isabelle
  imports Main "HOL-Library.Multiset"
begin

section \<open>JavaScript strings and values\<close>

text \<open>
  A JavaScript string is a sequence of UTF-16 code units. The model uses \<open>string\<close>,
  whose characters are the code units 0 to 255 (Latin-1); on this range
  \<open>String.prototype.toLowerCase\<close>, \<open>String.prototype.trim\<close> and the class \<open>\s\<close> of
  regular expressions are as below. \<open>length\<close> counts code units, as \<open>.length\<close> does.
\<close>

definition dquote :: char where
  "dquote = CHR 0x22"

definition newline :: char where
  "newline = CHR 0x0A"


definition comma :: char where
  "comma = CHR '',''"

text \<open>White space and line terminators below U+0100: TAB, LF, VT, FF, CR, SP, NBSP.\<close>

definition is_space :: "char \<Rightarrow> bool" where
  "is_space c = (let n = (of_char c :: nat) in (9 \<le> n \<and> n \<le> 13) \<or> n = 32 \<or> n = 160)"

text \<open>Upper-case letters below U+0100: A to Z, and U+00C0 to U+00DE without U+00D7.\<close>

definition lower_char :: "char \<Rightarrow> char" where
  "lower_char c = (let n = (of_char c :: nat) in
     if (65 \<le> n \<and> n \<le> 90) \<or> (192 \<le> n \<and> n \<le> 222 \<and> n \<noteq> 215)
     then char_of (n + 32) else c)"

definition toLowerCase :: "string \<Rightarrow> string" where
  "toLowerCase s = map lower_char s"

definition trim :: "string \<Rightarrow> string" where
  "trim s = rev (dropWhile is_space (rev (dropWhile is_space s)))"

text \<open>
  The values a field of a parsed JSON request body can have in the model: absent
  (\<open>undefined\<close>), \<open>null\<close>, a boolean, a number, a string or an array. Objects are left
  out: what \<open>message.length < 10\<close> does on an object with a \<open>length\<close> key needs the
  whole of JavaScript's number conversion.
\<close>

datatype jsval =
    JUndefined
  | JNull
  | JBoolean bool
  | JNumber int
  | JString string
  | JArray "jsval list"

text \<open>\<open>!v\<close> is \<open>\<not> truthy v\<close>.\<close>

fun truthy :: "jsval \<Rightarrow> bool" where
  "truthy JUndefined = False"
| "truthy JNull = False"
| "truthy (JBoolean b) = b"
| "truthy (JNumber n) = (n \<noteq> 0)"
| "truthy (JString s) = (s \<noteq> [])"
| "truthy (JArray xs) = True"

datatype error =
    TypeError
  | ValidationError
  | DuplicateKeyError
  | StorageError

text \<open>\<open>v.toLowerCase()\<close>: a method of strings only; on any other value the call throws.\<close>

fun js_toLowerCase :: "jsval \<Rightarrow> error + string" where
  "js_toLowerCase (JString s) = Inr (toLowerCase s)"
| "js_toLowerCase v = Inl TypeError"

text \<open>\<open>v.trim()\<close>, likewise.\<close>

fun js_trim :: "jsval \<Rightarrow> error + string" where
  "js_trim (JString s) = Inr (trim s)"
| "js_trim v = Inl TypeError"

text \<open>
  \<open>v.length < 10\<close> for a truthy \<open>v\<close>: strings and arrays have a length; on a number or
  \<open>true\<close> the property is \<open>undefined\<close>, and \<open>undefined < 10\<close> is false.
\<close>

fun js_length_lt :: "jsval \<Rightarrow> nat \<Rightarrow> bool" where
  "js_length_lt (JString s) n = (length s < n)"
| "js_length_lt (JArray xs) n = (length xs < n)"
| "js_length_lt v n = False"

section \<open>The email pattern\<close>

text \<open>
  The regular expression \<^verbatim>\<open>/^[^\s@]+@[^\s@]+\.[^\s@]+$/\<close> of both schemas and of the
  thoughts handler. \<open>email_char\<close> is the class \<^verbatim>\<open>[^\s@]\<close>. The first run of the class is
  the longest prefix of such characters and must be followed by \<open>@\<close>; what follows must
  be of the class throughout, with a dot that is neither its first nor its last
  character.
\<close>

definition email_char :: "char \<Rightarrow> bool" where
  "email_char c = (\<not> is_space c \<and> c \<noteq> CHR ''@'')"

definition email_pattern :: "string \<Rightarrow> bool" where
  "email_pattern s =
     (let local = takeWhile email_char s; rest = dropWhile email_char s
      in local \<noteq> [] \<and>
         (case rest of
            [] \<Rightarrow> False
          | c # d \<Rightarrow> c = CHR ''@'' \<and> list_all email_char d \<and> CHR ''.'' \<in> set (butlast (tl d))))"

section \<open>Documents, collections and the requests\<close>

record waitlist_entry =
  w_id :: nat
  w_email :: string
  w_timestamp :: nat
  w_source :: string
  w_ipAddress :: "string option"
  w_userAgent :: "string option"

record thoughts_entry =
  t_id :: nat
  t_email :: "string option"
  t_message :: string
  t_timestamp :: nat
  t_source :: string
  t_ipAddress :: "string option"
  t_userAgent :: "string option"

text \<open>
  The database: whether the Mongoose connection is up, and the two collections in
  insertion order.
\<close>

record storage =
  connected :: bool
  waitlist :: "waitlist_entry list"
  thoughts :: "thoughts_entry list"

text \<open>
  What a handler reads from its surroundings: \<open>process.env.ADMIN_API_KEY\<close> (unset is
  \<open>None\<close>), the clock \<open>Date.now()\<close>, the ObjectId the driver gives the next new
  document, and the locale's rendering of a date.
\<close>

record env =
  ADMIN_API_KEY :: "string option"
  date_now :: nat
  new_oid :: nat
  toLocaleString :: "nat \<Rightarrow> string"

record request =
  body_email :: jsval
  body_message :: jsval
  req_ip :: "string option"
  header_user_agent :: "string option"
  header_x_api_key :: "string option"

datatype json =
    J_Null
  | J_Bool bool
  | J_Num nat
  | J_Str string
  | J_Date nat
  | J_Id nat
  | J_Arr "json list"
  | J_Obj "(string \<times> json) list"

datatype body =
    Json json
  | Text string

record response =
  status :: nat
  headers :: "(string \<times> string) list"
  body :: body

text \<open>\<open>res.status(code).json({ success: false, message: msg })\<close>\<close>

definition failure :: "nat \<Rightarrow> string \<Rightarrow> response" where
  "failure code msg =
     \<lparr>status = code, headers = [],
      body = Json (J_Obj [(''success'', J_Bool False), (''message'', J_Str msg)])\<rparr>"

section \<open>The schemas: setters and validators\<close>

text \<open>The setters \<open>lowercase: true\<close> and \<open>trim: true\<close> of an email path, in this order.\<close>

definition email_setters :: "string \<Rightarrow> string" where
  "email_setters s = trim (toLowerCase s)"

text \<open>\<open>required: true\<close> on a string path rejects the empty string.\<close>

definition required_ok :: "string \<Rightarrow> bool" where
  "required_ok s = (s \<noteq> [])"

text \<open>The \<open>match\<close> validator skips the empty string.\<close>

definition match_ok :: "string \<Rightarrow> bool" where
  "match_ok s = (if s = [] then True else email_pattern s)"

definition minlength_ok :: "nat \<Rightarrow> string \<Rightarrow> bool" where
  "minlength_ok n s = (n \<le> length s)"

text \<open>
  \<open>new Waitlist({ email, ipAddress, userAgent })\<close>: the setters run on the email, the
  defaults fill \<open>timestamp\<close> and \<open>source\<close>.
\<close>

definition new_Waitlist :: "env \<Rightarrow> string \<Rightarrow> string option \<Rightarrow> string option \<Rightarrow> waitlist_entry" where
  "new_Waitlist e email ipAddress userAgent =
     \<lparr>w_id = new_oid e, w_email = email_setters email, w_timestamp = date_now e,
      w_source = ''landing-page'', w_ipAddress = ipAddress, w_userAgent = userAgent\<rparr>"

text \<open>
  \<open>new Thoughts({ email, message, ipAddress, userAgent })\<close>; the email is a string or
  \<open>null\<close>, and the setters leave \<open>null\<close> alone.
\<close>

definition new_Thoughts ::
  "env \<Rightarrow> string option \<Rightarrow> string \<Rightarrow> string option \<Rightarrow> string option \<Rightarrow> thoughts_entry" where
  "new_Thoughts e email message ipAddress userAgent =
     \<lparr>t_id = new_oid e, t_email = map_option email_setters email, t_message = trim message,
      t_timestamp = date_now e, t_source = ''landing-page'',
      t_ipAddress = ipAddress, t_userAgent = userAgent\<rparr>"

definition validate_Waitlist :: "waitlist_entry \<Rightarrow> bool" where
  "validate_Waitlist d = (required_ok (w_email d) \<and> match_ok (w_email d))"

definition validate_Thoughts :: "thoughts_entry \<Rightarrow> bool" where
  "validate_Thoughts d =
     ((case t_email d of None \<Rightarrow> True | Some a \<Rightarrow> match_ok a) \<and>
      required_ok (t_message d) \<and> minlength_ok 10 (t_message d))"

section \<open>The model operations of Mongoose\<close>

text \<open>
  Every operation on a model fails when the connection is down: with no connection
  Mongoose buffers the operation and rejects it when the buffer times out.

  \<open>countDocuments\<close> exists from Mongoose 5.2 on. From 5.0 on, the filter of a query
  is cast through the schema before it is sent, and for a string path the cast runs the
  setters of the path on the value (a regular expression apart): with
  \<open>lowercase: true\<close> and \<open>trim: true\<close> on \<open>email\<close>, \<open>findOne({ email: v })\<close> looks
  for \<open>email_setters v\<close>.

  Of a document, the model keeps what a route can show: \<open>_id\<close> and the paths of the
  schema. \<open>createdAt\<close>, \<open>updatedAt\<close> and \<open>__v\<close> are read by no route.
\<close>

definition Waitlist_findOne :: "string \<Rightarrow> storage \<Rightarrow> error + waitlist_entry option" where
  "Waitlist_findOne v s =
     (if connected s then Inr (find (\<lambda>d. w_email d = email_setters v) (waitlist s))
      else Inl StorageError)"

text \<open>
  \<open>save()\<close> validates, then inserts; the unique index on \<open>email\<close> refuses a second
  document with the same value.
\<close>

definition Waitlist_save :: "waitlist_entry \<Rightarrow> storage \<Rightarrow> error + storage" where
  "Waitlist_save d s =
     (if \<not> validate_Waitlist d then Inl ValidationError
      else if \<not> connected s then Inl StorageError
      else if list_ex (\<lambda>x. w_email x = w_email d) (waitlist s) then Inl DuplicateKeyError
      else Inr (s\<lparr>waitlist := waitlist s @ [d]\<rparr>))"

definition Thoughts_save :: "thoughts_entry \<Rightarrow> storage \<Rightarrow> error + storage" where
  "Thoughts_save d s =
     (if \<not> validate_Thoughts d then Inl ValidationError
      else if \<not> connected s then Inl StorageError
      else Inr (s\<lparr>thoughts := thoughts s @ [d]\<rparr>))"

definition Waitlist_countDocuments :: "storage \<Rightarrow> error + nat" where
  "Waitlist_countDocuments s =
     (if connected s then Inr (length (waitlist s)) else Inl StorageError)"

definition Thoughts_countDocuments :: "storage \<Rightarrow> error + nat" where
  "Thoughts_countDocuments s =
     (if connected s then Inr (length (thoughts s)) else Inl StorageError)"

text \<open>\<open>find().sort({ timestamp: -1 })\<close>: the whole collection, latest timestamp first.\<close>

definition Waitlist_find_sorted :: "storage \<Rightarrow> error + waitlist_entry list" where
  "Waitlist_find_sorted s =
     (if connected s then Inr (sort_key (\<lambda>d. - int (w_timestamp d)) (waitlist s))
      else Inl StorageError)"

definition Thoughts_find_sorted :: "storage \<Rightarrow> error + thoughts_entry list" where
  "Thoughts_find_sorted s =
     (if connected s then Inr (sort_key (\<lambda>d. - int (t_timestamp d)) (thoughts s))
      else Inl StorageError)"

text \<open>
  \<open>.select('email timestamp source')\<close> and \<open>.select('email message timestamp source')\<close>:
  an inclusive projection keeps the named paths and \<open>_id\<close>.
\<close>

definition select_waitlist :: "waitlist_entry \<Rightarrow> json" where
  "select_waitlist d =
     J_Obj [(''_id'', J_Id (w_id d)), (''email'', J_Str (w_email d)),
            (''timestamp'', J_Date (w_timestamp d)), (''source'', J_Str (w_source d))]"

definition select_thoughts :: "thoughts_entry \<Rightarrow> json" where
  "select_thoughts d =
     J_Obj [(''_id'', J_Id (t_id d)),
            (''email'', (case t_email d of None \<Rightarrow> J_Null | Some a \<Rightarrow> J_Str a)),
            (''message'', J_Str (t_message d)),
            (''timestamp'', J_Date (t_timestamp d)), (''source'', J_Str (t_source d))]"

section \<open>The request handlers\<close>

text \<open>
  The \<open>try\<close> block of a handler either throws (\<open>Inl\<close>) or has sent a response
  (\<open>Inr\<close>), and leaves a storage behind. \<open>try_catch\<close> is the \<open>catch\<close> clause shared by
  the handlers: it answers 500 with the handler's own message.
\<close>

type_synonym outcome = "(error + response) \<times> storage"

definition try_catch :: "string \<Rightarrow> outcome \<Rightarrow> outcome" where
  "try_catch msg r =
     (case fst r of
        Inl err \<Rightarrow> (Inr (failure 500 msg), snd r)
      | Inr resp \<Rightarrow> r)"

subsection \<open>POST /api/waitlist\<close>

text \<open>
  \<open>res.status(201).json({ success: true, message: 'Successfully added to waitlist',
  count: totalCount })\<close>
\<close>

definition waitlist_added :: "nat \<Rightarrow> response" where
  "waitlist_added totalCount =
     \<lparr>status = 201, headers = [],
      body = Json (J_Obj [(''success'', J_Bool True),
                          (''message'', J_Str ''Successfully added to waitlist''),
                          (''count'', J_Num totalCount)])\<rparr>"

definition post_waitlist_try :: "env \<Rightarrow> request \<Rightarrow> storage \<Rightarrow> outcome" where
  "post_waitlist_try e req s =
     (if \<not> truthy (body_email req) then (Inr (failure 400 ''Email is required''), s)
      else case js_toLowerCase (body_email req) of
        Inl err \<Rightarrow> (Inl err, s)
      | Inr lowered \<Rightarrow>
          (case Waitlist_findOne lowered s of
             Inl err \<Rightarrow> (Inl err, s)
           | Inr (Some existingEmail) \<Rightarrow>
               (Inr (failure 409 ''This email is already registered''), s)
           | Inr None \<Rightarrow>
               (case Waitlist_save
                       (new_Waitlist e lowered (req_ip req) (header_user_agent req)) s of
                  Inl err \<Rightarrow> (Inl err, s)
                | Inr s' \<Rightarrow>
                    (case Waitlist_countDocuments s' of
                       Inl err \<Rightarrow> (Inl err, s')
                     | Inr totalCount \<Rightarrow>
                         (Inr (waitlist_added totalCount), s')))))"

definition post_waitlist :: "env \<Rightarrow> request \<Rightarrow> storage \<Rightarrow> outcome" where
  "post_waitlist e req s =
     try_catch ''Server error. Please try again.'' (post_waitlist_try e req s)"

subsection \<open>POST /api/thoughts\<close>

text \<open>\<open>email ? email.toLowerCase().trim() : null\<close>\<close>

definition normalizedEmail :: "jsval \<Rightarrow> error + string option" where
  "normalizedEmail email =
     (if truthy email
      then (case js_toLowerCase email of
              Inl err \<Rightarrow> Inl err
            | Inr lowered \<Rightarrow> Inr (Some (trim lowered)))
      else Inr None)"

text \<open>\<open>normalizedEmail && !pattern.test(normalizedEmail)\<close>: \<open>null\<close> and the empty string are falsy.\<close>

definition invalid_email_format :: "string option \<Rightarrow> bool" where
  "invalid_email_format n =
     (case n of None \<Rightarrow> False | Some a \<Rightarrow> a \<noteq> [] \<and> \<not> email_pattern a)"

text \<open>\<open>res.status(201).json({ success: true, message: 'Successfully saved your thoughts' })\<close>\<close>

definition thoughts_saved :: response where
  "thoughts_saved =
     \<lparr>status = 201, headers = [],
      body = Json (J_Obj [(''success'', J_Bool True),
                          (''message'', J_Str ''Successfully saved your thoughts'')])\<rparr>"

definition post_thoughts_try :: "env \<Rightarrow> request \<Rightarrow> storage \<Rightarrow> outcome" where
  "post_thoughts_try e req s =
     (if \<not> truthy (body_message req) then (Inr (failure 400 ''Message is required''), s)
      else if js_length_lt (body_message req) 10
      then (Inr (failure 400 ''Message must be at least 10 characters long''), s)
      else case normalizedEmail (body_email req) of
        Inl err \<Rightarrow> (Inl err, s)
      | Inr n \<Rightarrow>
          if invalid_email_format n then (Inr (failure 400 ''Invalid email format''), s)
          else (case js_trim (body_message req) of
             Inl err \<Rightarrow> (Inl err, s)
           | Inr trimmed \<Rightarrow>
               (case Thoughts_save
                       (new_Thoughts e n trimmed (req_ip req) (header_user_agent req)) s of
                  Inl err \<Rightarrow> (Inl err, s)
                | Inr s' \<Rightarrow>
                    (Inr thoughts_saved, s'))))"

definition post_thoughts :: "env \<Rightarrow> request \<Rightarrow> storage \<Rightarrow> outcome" where
  "post_thoughts e req s =
     try_catch ''Server error. Please try again.'' (post_thoughts_try e req s)"

subsection \<open>GET /api/waitlist/count and GET /api/thoughts/count\<close>

text \<open>\<open>res.json({ success: true, count })\<close>\<close>

definition count_response :: "nat \<Rightarrow> response" where
  "count_response n =
     \<lparr>status = 200, headers = [],
      body = Json (J_Obj [(''success'', J_Bool True), (''count'', J_Num n)])\<rparr>"

definition get_waitlist_count_try :: "storage \<Rightarrow> outcome" where
  "get_waitlist_count_try s =
     (case Waitlist_countDocuments s of
        Inl err \<Rightarrow> (Inl err, s)
      | Inr n \<Rightarrow> (Inr (count_response n), s))"

definition get_waitlist_count :: "storage \<Rightarrow> outcome" where
  "get_waitlist_count s = try_catch ''Server error'' (get_waitlist_count_try s)"

definition get_thoughts_count_try :: "storage \<Rightarrow> outcome" where
  "get_thoughts_count_try s =
     (case Thoughts_countDocuments s of
        Inl err \<Rightarrow> (Inl err, s)
      | Inr n \<Rightarrow> (Inr (count_response n), s))"

definition get_thoughts_count :: "storage \<Rightarrow> outcome" where
  "get_thoughts_count s = try_catch ''Server error'' (get_thoughts_count_try s)"

subsection \<open>The admin routes\<close>

text \<open>
  \<open>apiKey !== process.env.ADMIN_API_KEY\<close>: strict inequality of two values that are
  each a string or \<open>undefined\<close>.
\<close>

definition unauthorized :: "env \<Rightarrow> request \<Rightarrow> bool" where
  "unauthorized e req = (header_x_api_key req \<noteq> ADMIN_API_KEY e)"

text \<open>\<open>res.json({ success: true, count: docs.length, data: docs })\<close>\<close>

definition list_response :: "json list \<Rightarrow> response" where
  "list_response docs =
     \<lparr>status = 200, headers = [],
      body = Json (J_Obj [(''success'', J_Bool True), (''count'', J_Num (length docs)),
                          (''data'', J_Arr docs)])\<rparr>"

definition get_waitlist_all_try :: "env \<Rightarrow> request \<Rightarrow> storage \<Rightarrow> outcome" where
  "get_waitlist_all_try e req s =
     (if unauthorized e req then (Inr (failure 401 ''Unauthorized''), s)
      else case Waitlist_find_sorted s of
        Inl err \<Rightarrow> (Inl err, s)
      | Inr emails \<Rightarrow> (Inr (list_response (map select_waitlist emails)), s))"

definition get_waitlist_all :: "env \<Rightarrow> request \<Rightarrow> storage \<Rightarrow> outcome" where
  "get_waitlist_all e req s = try_catch ''Server error'' (get_waitlist_all_try e req s)"

definition get_thoughts_all_try :: "env \<Rightarrow> request \<Rightarrow> storage \<Rightarrow> outcome" where
  "get_thoughts_all_try e req s =
     (if unauthorized e req then (Inr (failure 401 ''Unauthorized''), s)
      else case Thoughts_find_sorted s of
        Inl err \<Rightarrow> (Inl err, s)
      | Inr ts \<Rightarrow> (Inr (list_response (map select_thoughts ts)), s))"

definition get_thoughts_all :: "env \<Rightarrow> request \<Rightarrow> storage \<Rightarrow> outcome" where
  "get_thoughts_all e req s = try_catch ''Server error'' (get_thoughts_all_try e req s)"

text \<open>A value inside a template literal: \<open>undefined\<close> prints as its name.\<close>

definition template_string :: "string option \<Rightarrow> string" where
  "template_string v = (case v of None \<Rightarrow> ''undefined'' | Some a \<Rightarrow> a)"

text \<open>\<open>entry.email || ''\<close>\<close>

definition email_or_empty :: "string option \<Rightarrow> string" where
  "email_or_empty v = (case v of None \<Rightarrow> [] | Some a \<Rightarrow> a)"

text \<open>\<open>message.replace(/"/g, '""')\<close>\<close>

definition double_quotes :: "string \<Rightarrow> string" where
  "double_quotes m = concat (map (\<lambda>c. if c = dquote then [dquote, dquote] else [c]) m)"

definition waitlist_row :: "env \<Rightarrow> waitlist_entry \<Rightarrow> string" where
  "waitlist_row e entry =
     w_email entry @ [comma] @ toLocaleString e (w_timestamp entry) @ [comma] @
     w_source entry @ [comma] @ template_string (w_ipAddress entry) @ [newline]"

definition thoughts_row :: "env \<Rightarrow> thoughts_entry \<Rightarrow> string" where
  "thoughts_row e entry =
     [dquote] @ email_or_empty (t_email entry) @ [dquote, comma, dquote] @
     double_quotes (t_message entry) @ [dquote, comma, dquote] @
     toLocaleString e (t_timestamp entry) @ [dquote, comma, dquote] @
     t_source entry @ [dquote, comma, dquote] @
     template_string (t_ipAddress entry) @ [dquote, newline]"

text \<open>Each \<open>forEach\<close> appends one row per entry to the header line.\<close>

definition waitlist_csv :: "env \<Rightarrow> waitlist_entry list \<Rightarrow> string" where
  "waitlist_csv e emails =
     fold (\<lambda>entry csv. csv @ waitlist_row e entry) emails
       (''Email,Signup Date,Source,IP Address'' @ [newline])"

definition thoughts_csv :: "env \<Rightarrow> thoughts_entry list \<Rightarrow> string" where
  "thoughts_csv e ts =
     fold (\<lambda>entry csv. csv @ thoughts_row e entry) ts
       (''Email,Message,Date,Source,IP Address'' @ [newline])"

definition csv_response :: "string \<Rightarrow> string \<Rightarrow> response" where
  "csv_response filename csv =
     \<lparr>status = 200,
      headers = [(''Content-Type'', ''text/csv''),
                 (''Content-Disposition'', ''attachment; filename='' @ filename)],
      body = Text csv\<rparr>"

definition get_waitlist_export_try :: "env \<Rightarrow> request \<Rightarrow> storage \<Rightarrow> outcome" where
  "get_waitlist_export_try e req s =
     (if unauthorized e req then (Inr (failure 401 ''Unauthorized''), s)
      else case Waitlist_find_sorted s of
        Inl err \<Rightarrow> (Inl err, s)
      | Inr emails \<Rightarrow> (Inr (csv_response ''waitlist.csv'' (waitlist_csv e emails)), s))"

definition get_waitlist_export :: "env \<Rightarrow> request \<Rightarrow> storage \<Rightarrow> outcome" where
  "get_waitlist_export e req s =
     try_catch ''Server error'' (get_waitlist_export_try e req s)"

definition get_thoughts_export_try :: "env \<Rightarrow> request \<Rightarrow> storage \<Rightarrow> outcome" where
  "get_thoughts_export_try e req s =
     (if unauthorized e req then (Inr (failure 401 ''Unauthorized''), s)
      else case Thoughts_find_sorted s of
        Inl err \<Rightarrow> (Inl err, s)
      | Inr ts \<Rightarrow> (Inr (csv_response ''thoughts.csv'' (thoughts_csv e ts)), s))"

definition get_thoughts_export :: "env \<Rightarrow> request \<Rightarrow> storage \<Rightarrow> outcome" where
  "get_thoughts_export e req s =
     try_catch ''Server error'' (get_thoughts_export_try e req s)"

subsection \<open>GET /health\<close>

text \<open>\<open>res.json({ status: 'ok', message: 'Server is running' })\<close>\<close>

definition health_ok :: response where
  "health_ok =
     \<lparr>status = 200, headers = [],
      body = Json (J_Obj [(''status'', J_Str ''ok''),
                          (''message'', J_Str ''Server is running'')])\<rparr>"

definition get_health :: "storage \<Rightarrow> outcome" where
  "get_health s = (Inr health_ok, s)"

subsection \<open>Dispatch by method and path\<close>

datatype route =
    POST_waitlist
  | POST_thoughts
  | GET_waitlist_count
  | GET_thoughts_count
  | GET_waitlist_all
  | GET_thoughts_all
  | GET_waitlist_export
  | GET_thoughts_export
  | GET_health

fun handle :: "route \<Rightarrow> env \<Rightarrow> request \<Rightarrow> storage \<Rightarrow> outcome" where
  "handle POST_waitlist e req s = post_waitlist e req s"
| "handle POST_thoughts e req s = post_thoughts e req s"
| "handle GET_waitlist_count e req s = get_waitlist_count s"
| "handle GET_thoughts_count e req s = get_thoughts_count s"
| "handle GET_waitlist_all e req s = get_waitlist_all e req s"
| "handle GET_thoughts_all e req s = get_thoughts_all e req s"
| "handle GET_waitlist_export e req s = get_waitlist_export e req s"
| "handle GET_thoughts_export e req s = get_thoughts_export e req s"
| "handle GET_health e req s = get_health s"

text \<open>The \<open>try\<close> block of each route; the health handler has none and cannot throw.\<close>

fun handle_try :: "route \<Rightarrow> env \<Rightarrow> request \<Rightarrow> storage \<Rightarrow> outcome" where
  "handle_try POST_waitlist e req s = post_waitlist_try e req s"
| "handle_try POST_thoughts e req s = post_thoughts_try e req s"
| "handle_try GET_waitlist_count e req s = get_waitlist_count_try s"
| "handle_try GET_thoughts_count e req s = get_thoughts_count_try s"
| "handle_try GET_waitlist_all e req s = get_waitlist_all_try e req s"
| "handle_try GET_thoughts_all e req s = get_thoughts_all_try e req s"
| "handle_try GET_waitlist_export e req s = get_waitlist_export_try e req s"
| "handle_try GET_thoughts_export e req s = get_thoughts_export_try e req s"
| "handle_try GET_health e req s = get_health s"

section \<open>Startup: connectDB\<close>

text \<open>
  \<open>mongoose.connect\<close> is the environment's: \<open>attempt t\<close> tells whether a connection
  attempt begun at time \<open>t\<close> (in milliseconds) succeeds, and how long it takes to
  settle. \<open>connectDB\<close> records the times at which it called \<open>mongoose.connect\<close>,
  whether the connection stands in the end, and whether the process has exited (the
  call of \<open>process.exit\<close> is commented out in the source).
\<close>

record startup =
  attempts :: "nat list"
  db_connected :: bool
  exited :: bool

fun connectDB :: "nat \<Rightarrow> (nat \<Rightarrow> bool \<times> nat) \<Rightarrow> nat \<Rightarrow> startup" where
  "connectDB retries attempt t =
     (if fst (attempt t)
      then \<lparr>attempts = [t], db_connected = True, exited = False\<rparr>
      else if 0 < retries
      then (let later = connectDB (retries - 1) attempt (t + snd (attempt t) + 5000)
            in later\<lparr>attempts := t # attempts later\<rparr>)
      else \<lparr>attempts = [t], db_connected = False, exited = False\<rparr>)"

text \<open>\<open>connectDB()\<close> at load time, with the default \<open>retries = 3\<close>, on a database \<open>s\<close>.\<close>

definition boot :: "(nat \<Rightarrow> bool \<times> nat) \<Rightarrow> nat \<Rightarrow> storage \<Rightarrow> storage" where
  "boot attempt t s = s\<lparr>connected := db_connected (connectDB 3 attempt t)\<rparr>"

section \<open>A reader of CSV text\<close>








section \<open>Notions the properties are stated with\<close>

text \<open>The four routes behind the admin key.\<close>

fun admin_route :: "route \<Rightarrow> bool" where
  "admin_route GET_waitlist_all = True"
| "admin_route GET_thoughts_all = True"
| "admin_route GET_waitlist_export = True"
| "admin_route GET_thoughts_export = True"
| "admin_route r = False"

text \<open>The keys of a JSON object, in order.\<close>

fun object_keys :: "json \<Rightarrow> string list" where
  "object_keys (J_Obj kvs) = map fst kvs"
| "object_keys v = []"

text \<open>The keys of the JSON object a response carries; a text body has none.\<close>

definition response_keys :: "response \<Rightarrow> string list" where
  "response_keys r = (case body r of Json j \<Rightarrow> object_keys j | Text t \<Rightarrow> [])"

section \<open>Sample inputs\<close>

definition sample_env :: env where
  "sample_env =
     \<lparr>ADMIN_API_KEY = Some ''s3cret'', date_now = 1762153440000, new_oid = 1,
      toLocaleString = (\<lambda>t. ''11/3/2026, 7:04:00 AM'')\<rparr>"

definition keyless_env :: env where
  "keyless_env = sample_env\<lparr>ADMIN_API_KEY := None\<rparr>"

definition sample_request :: "jsval \<Rightarrow> jsval \<Rightarrow> string option \<Rightarrow> request" where
  "sample_request email message key =
     \<lparr>body_email = email, body_message = message, req_ip = Some ''203.0.113.7'',
      header_user_agent = Some ''curl/8.5.0'', header_x_api_key = key\<rparr>"

definition empty_store :: storage where
  "empty_store = \<lparr>connected = True, waitlist = [], thoughts = []\<rparr>"

definition user_entry :: waitlist_entry where
  "user_entry =
     \<lparr>w_id = 1, w_email = ''user@example.com'', w_timestamp = 1762153440000,
      w_source = ''landing-page'', w_ipAddress = Some ''203.0.113.7'',
      w_userAgent = Some ''curl/8.5.0''\<rparr>"

definition one_user_store :: storage where
  "one_user_store = \<lparr>connected = True, waitlist = [user_entry], thoughts = []\<rparr>"

definition unreachable_store :: storage where
  "unreachable_store = \<lparr>connected = False, waitlist = [user_entry], thoughts = []\<rparr>"




text \<open>A database that never answers: every attempt fails after 30 seconds.\<close>

definition failing_connect :: "nat \<Rightarrow> bool \<times> nat" where
  "failing_connect t = (False, 30000)"

section \<open>Strings: lower case, trimming and the pattern\<close>

lemmas string_eval = trim_def toLowerCase_def lower_char_def is_space_def email_setters_def
  email_pattern_def email_char_def Let_def char_of_def bit_Suc_0_iff

lemma lower_char_idem: "lower_char (lower_char c) = lower_char c"
  by (auto simp: lower_char_def Let_def)

lemma is_space_lower_char: "is_space (lower_char c) = is_space c"
  by (auto simp: lower_char_def is_space_def Let_def)

lemma lower_char_eq_at: "lower_char c = CHR ''@'' \<longleftrightarrow> c = CHR ''@''"
proof -
  have "(of_char (lower_char c) :: nat) = 64 \<longleftrightarrow> (of_char c :: nat) = 64"
    by (auto simp: lower_char_def Let_def)
  moreover have "(of_char (CHR ''@'') :: nat) = 64"
    by simp
  ultimately show ?thesis
    by (metis of_char_eq_iff)
qed

lemma lower_char_eq_dot: "lower_char c = CHR ''.'' \<longleftrightarrow> c = CHR ''.''"
proof -
  have "(of_char (lower_char c) :: nat) = 46 \<longleftrightarrow> (of_char c :: nat) = 46"
    by (auto simp: lower_char_def Let_def)
  moreover have "(of_char (CHR ''.'') :: nat) = 46"
    by simp
  ultimately show ?thesis
    by (metis of_char_eq_iff)
qed

lemma email_char_lower_char: "email_char (lower_char c) = email_char c"
  by (simp add: email_char_def is_space_lower_char lower_char_eq_at)

lemma toLowerCase_idem: "toLowerCase (toLowerCase s) = toLowerCase s"
  by (simp add: toLowerCase_def lower_char_idem)


lemma length_trim_le: "length (trim m) \<le> length m"
  unfolding trim_def
  by (metis length_dropWhile_le length_rev order_trans)



lemma email_setters_toLowerCase: "email_setters (toLowerCase s) = email_setters s"
  by (simp add: email_setters_def toLowerCase_idem)

lemma email_pattern_toLowerCase: "email_pattern (toLowerCase s) = email_pattern s"
proof -
  have c: "email_char \<circ> lower_char = email_char"
    by (rule ext) (simp add: email_char_lower_char)
  have t: "takeWhile email_char (map lower_char s) = map lower_char (takeWhile email_char s)"
    by (simp add: takeWhile_map c)
  have d: "dropWhile email_char (map lower_char s) = map lower_char (dropWhile email_char s)"
    by (simp add: dropWhile_map c)
  have dot: "CHR ''.'' \<in> lower_char ` A \<longleftrightarrow> CHR ''.'' \<in> A" for A
    using lower_char_eq_dot by (metis (no_types, opaque_lifting) image_iff)
  show ?thesis
  proof (cases "dropWhile email_char s")
    case Nil
    then show ?thesis
      by (simp add: email_pattern_def toLowerCase_def Let_def t d del: dropWhile_eq_Nil_conv)
  next
    case (Cons x xs)
    then show ?thesis
      by (simp add: email_pattern_def toLowerCase_def Let_def t d lower_char_eq_at list_all_iff
          email_char_lower_char dot map_butlast [symmetric] map_tl [symmetric]
          del: dropWhile_eq_Nil_conv)
  qed
qed

lemma email_pattern_no_space:
  assumes "email_pattern s"
  shows "list_all (\<lambda>c. \<not> is_space c) s"
proof -
  have "s = takeWhile email_char s @ dropWhile email_char s"
    by simp
  moreover have "list_all (\<lambda>c. \<not> is_space c) (takeWhile email_char s)"
    by (auto simp: list_all_iff email_char_def dest: set_takeWhileD)
  moreover have "list_all (\<lambda>c. \<not> is_space c) (dropWhile email_char s)"
  proof (cases "dropWhile email_char s")
    case Nil
    then show ?thesis by (simp del: dropWhile_eq_Nil_conv)
  next
    case (Cons x xs)
    with assms have "x = CHR ''@''" and "list_all email_char xs"
      by (simp_all add: email_pattern_def Let_def del: dropWhile_eq_Nil_conv)
    moreover have "\<not> is_space (CHR ''@'')"
      by (simp add: is_space_def)
    ultimately show ?thesis
      using Cons by (simp add: list_all_iff email_char_def)
  qed
  ultimately show ?thesis
    by (metis list_all_append)
qed

lemma trim_no_space:
  assumes "list_all (\<lambda>c. \<not> is_space c) s"
  shows "trim s = s"
proof -
  have "dropWhile is_space xs = xs" if "list_all (\<lambda>c. \<not> is_space c) xs" for xs
    using that by (cases xs) simp_all
  moreover have "list_all (\<lambda>c. \<not> is_space c) (rev s)"
    using assms by (simp add: list_all_iff)
  ultimately show ?thesis
    using assms by (simp add: trim_def)
qed

lemma email_pattern_nonempty: "email_pattern s \<Longrightarrow> s \<noteq> []"
  by (auto simp: email_pattern_def)

lemma email_char_special: "\<not> email_char (CHR ''@'')" "email_char (CHR ''.'')"
  by (simp_all add: email_char_def is_space_def)

lemma email_pattern_intro:
  assumes "a \<noteq> []" "b \<noteq> []" "c \<noteq> []"
    and "list_all email_char a" "list_all email_char b" "list_all email_char c"
  shows "email_pattern (a @ ''@'' @ b @ ''.'' @ c)"
proof -
  have t: "takeWhile email_char (a @ ''@'' @ b @ ''.'' @ c) = a"
    using assms(4) by (simp add: takeWhile_append2 list_all_iff email_char_special)
  have d: "dropWhile email_char (a @ ''@'' @ b @ ''.'' @ c) = CHR ''@'' # (b @ ''.'' @ c)"
    using assms(4) by (simp add: dropWhile_append2 list_all_iff email_char_special)
  obtain x b' where b: "b = x # b'"
    using assms(2) by (cases b) auto
  have "butlast (tl (b @ ''.'' @ c)) = b' @ CHR ''.'' # butlast c"
    using assms(3) by (simp add: b butlast_append)
  then have "CHR ''.'' \<in> set (butlast (tl (b @ ''.'' @ c)))"
    by simp
  moreover have "list_all email_char (b @ ''.'' @ c)"
    using assms(5,6) by (simp add: email_char_special)
  ultimately show ?thesis
    unfolding email_pattern_def Let_def t d using assms(1) by simp
qed

lemma email_pattern_elim:
  assumes "email_pattern s"
  shows "\<exists>a b c. s = a @ ''@'' @ b @ ''.'' @ c \<and> a \<noteq> [] \<and> b \<noteq> [] \<and> c \<noteq> [] \<and>
        list_all email_char a \<and> list_all email_char b \<and> list_all email_char c"
proof -
  let ?a = "takeWhile email_char s"
  obtain d where r: "dropWhile email_char s = CHR ''@'' # d"
    and d: "list_all email_char d" and dot: "CHR ''.'' \<in> set (butlast (tl d))"
    and a: "?a \<noteq> []"
    using assms
    by (cases "dropWhile email_char s")
      (simp_all add: email_pattern_def Let_def del: dropWhile_eq_Nil_conv)
  from dot obtain p q where pq: "butlast (tl d) = p @ CHR ''.'' # q"
    by (meson split_list)
  then have tlne: "tl d \<noteq> []"
    by auto
  then have dne: "d \<noteq> []"
    by auto
  have "d = hd d # tl d"
    using dne by simp
  also have "tl d = butlast (tl d) @ [last (tl d)]"
    using tlne by simp
  finally have dd: "d = (hd d # p) @ ''.'' @ (q @ [last (tl d)])"
    by (simp add: pq)
  have "s = ?a @ dropWhile email_char s"
    by simp
  then have s: "s = ?a @ ''@'' @ (hd d # p) @ ''.'' @ (q @ [last (tl d)])"
    using r dd by simp
  have la: "list_all email_char ?a"
    by (auto simp: list_all_iff dest: set_takeWhileD)
  have "list_all email_char ((hd d # p) @ ''.'' @ (q @ [last (tl d)]))"
    using d dd by simp
  then have "list_all email_char (hd d # p)" "list_all email_char (q @ [last (tl d)])"
    by simp_all
  with s a la show ?thesis
    by blast
qed

text \<open>
  What the pattern accepts, as the regular expression reads: a non-empty run of the
  class, \<open>@\<close>, a non-empty run, a dot, a non-empty run, and nothing else.
\<close>

lemma email_pattern_iff:
  "email_pattern s \<longleftrightarrow>
     (\<exists>a b c. s = a @ ''@'' @ b @ ''.'' @ c \<and> a \<noteq> [] \<and> b \<noteq> [] \<and> c \<noteq> [] \<and>
        list_all email_char a \<and> list_all email_char b \<and> list_all email_char c)"
  using email_pattern_elim email_pattern_intro by blast

lemma email_pattern_email_setters:
  assumes "email_pattern s"
  shows "email_pattern (email_setters s)"
proof -
  have p: "email_pattern (toLowerCase s)"
    using assms by (simp add: email_pattern_toLowerCase)
  then have "email_setters s = toLowerCase s"
    by (simp add: email_setters_def trim_no_space email_pattern_no_space)
  with p show ?thesis
    by simp
qed

lemma email_setters_nonempty: "email_setters v \<noteq> [] \<Longrightarrow> v \<noteq> []"
  by (auto simp: email_setters_def toLowerCase_def trim_def)

section \<open>POST /api/waitlist\<close>

lemma find_absent: "k \<notin> set (map f xs) \<Longrightarrow> find (\<lambda>d. f d = k) xs = None"
  by (auto simp: find_None_iff)

lemma find_present: "k \<in> set (map f xs) \<Longrightarrow> \<exists>d. find (\<lambda>d. f d = k) xs = Some d"
  by (cases "find (\<lambda>d. f d = k) xs") (auto simp: find_None_iff)

lemma post_waitlist_created:
  assumes "body_email req = JString v"
    and "connected s"
    and "email_pattern (email_setters v)"
    and "email_setters v \<notin> set (map w_email (waitlist s))"
  shows "post_waitlist e req s =
     (Inr (waitlist_added (Suc (length (waitlist s)))),
      s\<lparr>waitlist := waitlist s @
          [new_Waitlist e (toLowerCase v) (req_ip req) (header_user_agent req)]\<rparr>)"
proof -
  have ne: "v \<noteq> []"
    using assms(3) by (auto dest: email_pattern_nonempty email_setters_nonempty)
  have f: "Waitlist_findOne (toLowerCase v) s = Inr None"
    using assms(2,4) by (simp add: Waitlist_findOne_def email_setters_toLowerCase find_absent)
  have w: "w_email (new_Waitlist e (toLowerCase v) ip ua) = email_setters v" for ip ua
    by (simp add: new_Waitlist_def email_setters_toLowerCase)
  have val: "validate_Waitlist (new_Waitlist e (toLowerCase v) ip ua)" for ip ua
    using assms(3)
    by (auto simp: validate_Waitlist_def w required_ok_def match_ok_def
        dest: email_pattern_nonempty)
  have "\<not> list_ex (\<lambda>x. w_email x = email_setters v) (waitlist s)"
    using assms(4) by (auto simp: list_ex_iff intro: rev_image_eqI)
  then have sv: "Waitlist_save (new_Waitlist e (toLowerCase v) ip ua) s =
      Inr (s\<lparr>waitlist := waitlist s @ [new_Waitlist e (toLowerCase v) ip ua]\<rparr>)" for ip ua
    using assms(2) val by (simp add: Waitlist_save_def w)
  show ?thesis
    using assms(1,2) ne
    by (simp add: post_waitlist_def post_waitlist_try_def try_catch_def f sv
        Waitlist_countDocuments_def)
qed

lemma post_waitlist_conflict:
  assumes "body_email req = JString v"
    and "v \<noteq> []"
    and "connected s"
    and "email_setters v \<in> set (map w_email (waitlist s))"
  shows "post_waitlist e req s = (Inr (failure 409 ''This email is already registered''), s)"
proof -
  obtain d where "Waitlist_findOne (toLowerCase v) s = Inr (Some d)"
    using assms(3) find_present [OF assms(4)]
    by (auto simp: Waitlist_findOne_def email_setters_toLowerCase)
  then show ?thesis
    using assms(1,2)
    by (simp add: post_waitlist_def post_waitlist_try_def try_catch_def)
qed

lemma post_waitlist_twice:
  assumes "body_email req1 = JString v1" and "body_email req2 = JString v2"
    and "email_setters v1 = email_setters v2"
    and "email_pattern (email_setters v1)"
    and "connected s"
    and "email_setters v1 \<notin> set (map w_email (waitlist s))"
  shows "fst (post_waitlist e1 req1 s) = Inr (waitlist_added (Suc (length (waitlist s)))) \<and>
     waitlist (snd (post_waitlist e1 req1 s)) =
       waitlist s @ [new_Waitlist e1 (toLowerCase v1) (req_ip req1) (header_user_agent req1)] \<and>
     post_waitlist e2 req2 (snd (post_waitlist e1 req1 s)) =
       (Inr (failure 409 ''This email is already registered''), snd (post_waitlist e1 req1 s))"
proof -
  let ?d = "new_Waitlist e1 (toLowerCase v1) (req_ip req1) (header_user_agent req1)"
  let ?s1 = "s\<lparr>waitlist := waitlist s @ [?d]\<rparr>"
  have 1: "post_waitlist e1 req1 s = (Inr (waitlist_added (Suc (length (waitlist s)))), ?s1)"
    using assms(1,5,4,6) by (rule post_waitlist_created)
  have "email_setters v2 \<in> set (map w_email (waitlist ?s1))"
    by (simp add: new_Waitlist_def email_setters_toLowerCase assms(3))
  moreover have "v2 \<noteq> []"
    using assms(3,4) by (auto dest: email_pattern_nonempty email_setters_nonempty)
  moreover have "connected ?s1"
    using assms(5) by simp
  ultimately have
    "post_waitlist e2 req2 ?s1 = (Inr (failure 409 ''This email is already registered''), ?s1)"
    using assms(2) by (simp add: post_waitlist_conflict)
  with 1 show ?thesis
    by simp
qed

lemma sample_waitlist_created:
  assumes "email_setters v = ''user@example.com''"
  shows "post_waitlist sample_env (sample_request (JString v) m k) empty_store =
     (Inr (waitlist_added 1), one_user_store)"
proof -
  have p: "email_pattern (email_setters v)"
    unfolding assms by (simp add: string_eval)
  have "post_waitlist sample_env (sample_request (JString v) m k) empty_store =
     (Inr (waitlist_added (Suc (length (waitlist empty_store)))),
      empty_store\<lparr>waitlist := waitlist empty_store @
          [new_Waitlist sample_env (toLowerCase v) (req_ip (sample_request (JString v) m k))
             (header_user_agent (sample_request (JString v) m k))]\<rparr>)"
    by (rule post_waitlist_created) (simp_all add: sample_request_def empty_store_def p)
  then show ?thesis
    by (simp add: empty_store_def one_user_store_def user_entry_def new_Waitlist_def
        sample_request_def sample_env_def email_setters_toLowerCase assms)
qed

text \<open>
  C3. For an email that matches the pattern, on a reachable store that has no entry
  under its normalized form, the first submission answers 201 with the new count and
  appends one entry; the second answers 409 and leaves the store as the first left it.
\<close>

theorem waitlist_submit_twice:
  assumes "email_pattern v"
    and "body_email req1 = JString v" and "body_email req2 = JString v"
    and "connected s"
    and "email_setters v \<notin> set (map w_email (waitlist s))"
  shows "fst (post_waitlist e1 req1 s) = Inr (waitlist_added (Suc (length (waitlist s)))) \<and>
     waitlist (snd (post_waitlist e1 req1 s)) =
       waitlist s @ [new_Waitlist e1 (toLowerCase v) (req_ip req1) (header_user_agent req1)] \<and>
     post_waitlist e2 req2 (snd (post_waitlist e1 req1 s)) =
       (Inr (failure 409 ''This email is already registered''), snd (post_waitlist e1 req1 s))"
  using assms(2,3) refl email_pattern_email_setters [OF assms(1)] assms(4,5)
  by (rule post_waitlist_twice)

theorem waitlist_submit_twice_witness:
  "email_pattern ''User@Example.com'' \<and>
   post_waitlist sample_env (sample_request (JString ''User@Example.com'') JUndefined None)
     empty_store = (Inr (waitlist_added 1), one_user_store) \<and>
   post_waitlist sample_env (sample_request (JString ''User@Example.com'') JUndefined None)
     one_user_store = (Inr (failure 409 ''This email is already registered''), one_user_store)"
proof -
  let ?req = "sample_request (JString ''User@Example.com'') JUndefined None"
  have p: "email_pattern ''User@Example.com''"
    by (simp add: string_eval)
  have r: "body_email ?req = JString ''User@Example.com''"
    by (simp add: sample_request_def)
  have c: "connected empty_store"
    by (simp add: empty_store_def)
  have f: "email_setters ''User@Example.com'' \<notin> set (map w_email (waitlist empty_store))"
    by (simp add: empty_store_def)
  have ev: "post_waitlist sample_env ?req empty_store = (Inr (waitlist_added 1), one_user_store)"
    by (rule sample_waitlist_created) (simp add: string_eval)
  have "post_waitlist sample_env ?req (snd (post_waitlist sample_env ?req empty_store)) =
      (Inr (failure 409 ''This email is already registered''),
       snd (post_waitlist sample_env ?req empty_store))"
    using waitlist_submit_twice [OF p r r c f, of sample_env sample_env] by (elim conjE)
  then have "post_waitlist sample_env ?req one_user_store =
      (Inr (failure 409 ''This email is already registered''), one_user_store)"
    by (simp only: ev snd_conv)
  with p ev show ?thesis
    by (intro conjI)
qed



text \<open>
  C10, as stated, fails: an email that does not match the pattern only because of
  white space around it is a non-empty string that is not stored, and is accepted with
  201, since the schema trims it before the pattern is tried.
\<close>

theorem waitlist_padded_email_counterexample:
  "'' user@example.com'' \<noteq> [] \<and>
   \<not> email_pattern '' user@example.com'' \<and>
   '' user@example.com'' \<notin> set (map w_email (waitlist empty_store)) \<and>
   post_waitlist sample_env (sample_request (JString '' user@example.com'') JUndefined None)
     empty_store = (Inr (waitlist_added 1), one_user_store)"
proof -
  have "email_setters '' user@example.com'' = ''user@example.com''"
    by (simp add: string_eval)
  then have "post_waitlist sample_env
      (sample_request (JString '' user@example.com'') JUndefined None) empty_store =
      (Inr (waitlist_added 1), one_user_store)"
    by (rule sample_waitlist_created)
  moreover have "\<not> email_pattern '' user@example.com''"
    by (simp add: string_eval)
  ultimately show ?thesis
    by (simp add: empty_store_def)
qed

text \<open>
  C10, amended. A waitlist submission whose email is a non-empty string that, once
  normalized (lower case, trimmed), does not match the pattern and is not stored, is
  answered with 500 by the catch clause, and the store is left as it was; no 400 is
  sent, since the format is only checked by the schema on save.
\<close>

theorem waitlist_invalid_email_server_error:
  assumes "body_email req = JString v"
    and "v \<noteq> []"
    and "\<not> email_pattern (email_setters v)"
    and "email_setters v \<notin> set (map w_email (waitlist s))"
  shows "post_waitlist e req s = (Inr (failure 500 ''Server error. Please try again.''), s)"
proof (cases "connected s")
  case True
  then have f: "Waitlist_findOne (toLowerCase v) s = Inr None"
    using assms(4) by (simp add: Waitlist_findOne_def email_setters_toLowerCase find_absent)
  have "\<not> validate_Waitlist (new_Waitlist e (toLowerCase v) ip ua)" for ip ua
    using assms(3)
    by (auto simp: validate_Waitlist_def new_Waitlist_def email_setters_toLowerCase
        required_ok_def match_ok_def)
  then have sv: "Waitlist_save (new_Waitlist e (toLowerCase v) ip ua) s = Inl ValidationError"
    for ip ua
    by (simp add: Waitlist_save_def)
  show ?thesis
    using assms(1,2)
    by (simp add: post_waitlist_def post_waitlist_try_def try_catch_def f sv)
next
  case False
  then show ?thesis
    using assms(1,2)
    by (simp add: post_waitlist_def post_waitlist_try_def try_catch_def Waitlist_findOne_def)
qed

theorem waitlist_invalid_email_server_error_witness:
  "''not-an-email'' \<noteq> [] \<and>
   \<not> email_pattern (email_setters ''not-an-email'') \<and>
   email_setters ''not-an-email'' \<notin> set (map w_email (waitlist one_user_store)) \<and>
   post_waitlist sample_env (sample_request (JString ''not-an-email'') JUndefined None)
     one_user_store = (Inr (failure 500 ''Server error. Please try again.''), one_user_store)"
proof -
  have n: "email_setters ''not-an-email'' = ''not-an-email''"
    by (simp add: string_eval)
  have r: "body_email (sample_request (JString ''not-an-email'') JUndefined None) =
      JString ''not-an-email''"
    by (simp add: sample_request_def)
  have ne: "''not-an-email'' \<noteq> []"
    by simp
  have p: "\<not> email_pattern (email_setters ''not-an-email'')"
    unfolding n by (simp add: string_eval)
  have f: "email_setters ''not-an-email'' \<notin> set (map w_email (waitlist one_user_store))"
    unfolding n by (simp add: one_user_store_def user_entry_def)
  from waitlist_invalid_email_server_error [OF r ne p f, of sample_env] ne p f
  show ?thesis
    by (intro conjI)
qed

section \<open>POST /api/thoughts\<close>

lemma post_thoughts_absent:
  assumes "\<not> truthy (body_message req)"
  shows "post_thoughts e req s = (Inr (failure 400 ''Message is required''), s)"
  using assms by (simp add: post_thoughts_def post_thoughts_try_def try_catch_def)

lemma post_thoughts_short:
  assumes "body_message req = JString m" and "length m < 10"
  shows "\<exists>msg. post_thoughts e req s = (Inr (failure 400 msg), s)"
  using assms
  by (cases "m = []") (auto simp add: post_thoughts_def post_thoughts_try_def try_catch_def)


text \<open>
  C1. The handler compares the length of the message before trimming, the schema after:
  a message of ten characters of which eight are trailing blanks passes the handler's
  check, fails the schema's \<open>minlength\<close> on save, and is answered by the catch clause
  with 500, not with 400. Nothing is stored.
\<close>

theorem thoughts_padded_message_server_error:
  "length ''hi        '' = 10 \<and> length (trim ''hi        '') = 2 \<and>
   post_thoughts sample_env (sample_request JUndefined (JString ''hi        '') None)
     empty_store = (Inr (failure 500 ''Server error. Please try again.''), empty_store)"
  by (simp add: post_thoughts_def post_thoughts_try_def try_catch_def sample_request_def
      normalizedEmail_def invalid_email_format_def Thoughts_save_def validate_Thoughts_def
      new_Thoughts_def required_ok_def minlength_ok_def trim_def is_space_def)

section \<open>The admin routes\<close>

lemmas admin_defs = get_waitlist_all_def get_waitlist_all_try_def get_thoughts_all_def
  get_thoughts_all_try_def get_waitlist_export_def get_waitlist_export_try_def
  get_thoughts_export_def get_thoughts_export_try_def

lemma failure_inject: "failure c m = failure c' m' \<longleftrightarrow> c = c' \<and> m = m'"
  by (auto simp: failure_def)

lemma success_not_failure:
  "list_response ds \<noteq> failure c m" "csv_response f t \<noteq> failure c m"
  "count_response n \<noteq> failure c m"
  by (auto simp: failure_def list_response_def csv_response_def count_response_def)


lemma admin_rejects:
  assumes "admin_route r" and "header_x_api_key req \<noteq> ADMIN_API_KEY e"
  shows "handle r e req s = (Inr (failure 401 ''Unauthorized''), s)"
  using assms by (cases r) (simp_all add: admin_defs try_catch_def unauthorized_def)

lemma admin_admits:
  assumes "admin_route r" and "header_x_api_key req = ADMIN_API_KEY e"
  shows "fst (handle r e req s) \<noteq> Inr (failure 401 ''Unauthorized'')"
  using assms
  by (cases r; cases "connected s")
    (simp_all add: admin_defs try_catch_def unauthorized_def Waitlist_find_sorted_def
      Thoughts_find_sorted_def failure_inject success_not_failure)

text \<open>
  C4, as stated, fails: with no admin key configured, a request without the header is
  not rejected. The export route then sends the whole waitlist.
\<close>

theorem admin_gate_unset_key_counterexample:
  "ADMIN_API_KEY keyless_env = None \<and>
   header_x_api_key (sample_request JUndefined JUndefined None) = None \<and>
   handle GET_waitlist_export keyless_env (sample_request JUndefined JUndefined None)
     one_user_store =
     (Inr (csv_response ''waitlist.csv''
        (''Email,Signup Date,Source,IP Address'' @ [newline] @
         ''user@example.com,11/3/2026, 7:04:00 AM,landing-page,203.0.113.7'' @ [newline])),
      one_user_store)"
  by (simp add: keyless_env_def sample_env_def sample_request_def one_user_store_def
      user_entry_def get_waitlist_export_def get_waitlist_export_try_def try_catch_def
      unauthorized_def Waitlist_find_sorted_def waitlist_csv_def waitlist_row_def
      template_string_def comma_def)

text \<open>
  C4, amended. On each of the four admin routes the request is answered with 401 and
  the body \<open>{success: false, message}\<close>, which has no data, exactly when the header (a
  string, or absent) is not strictly equal to the configured key (a string, or unset).
  So with a key configured, an absent header and a header that differs from the key in
  any character are rejected, an empty header too unless the key is empty; and a
  request is let through only when the two are equal, which they also are when both
  are missing.
\<close>

theorem admin_gate_strict_equality:
  assumes "admin_route r"
  shows "(header_x_api_key req \<noteq> ADMIN_API_KEY e \<longrightarrow>
            handle r e req s = (Inr (failure 401 ''Unauthorized''), s)) \<and>
         (\<forall>k. ADMIN_API_KEY e = Some k \<and> header_x_api_key req \<noteq> Some k \<longrightarrow>
            handle r e req s = (Inr (failure 401 ''Unauthorized''), s)) \<and>
         (header_x_api_key req = ADMIN_API_KEY e \<longrightarrow>
            fst (handle r e req s) \<noteq> Inr (failure 401 ''Unauthorized'')) \<and>
         response_keys (failure 401 ''Unauthorized'') = [''success'', ''message'']"
proof -
  have "handle r e req s = (Inr (failure 401 ''Unauthorized''), s)"
    if "ADMIN_API_KEY e = Some k" and "header_x_api_key req \<noteq> Some k" for k
    using assms that by (simp add: admin_rejects)
  moreover have "response_keys (failure 401 ''Unauthorized'') = [''success'', ''message'']"
    by (simp add: response_keys_def failure_def)
  ultimately show ?thesis
    using admin_rejects [OF assms] admin_admits [OF assms] by blast
qed

theorem admin_gate_strict_equality_witness:
  "admin_route GET_thoughts_all \<and>
   handle GET_thoughts_all sample_env (sample_request JUndefined JUndefined (Some ''s3creT''))
     one_user_store = (Inr (failure 401 ''Unauthorized''), one_user_store) \<and>
   handle GET_thoughts_all sample_env (sample_request JUndefined JUndefined None)
     one_user_store = (Inr (failure 401 ''Unauthorized''), one_user_store) \<and>
   handle GET_thoughts_all sample_env (sample_request JUndefined JUndefined (Some []))
     one_user_store = (Inr (failure 401 ''Unauthorized''), one_user_store) \<and>
   fst (handle GET_thoughts_all sample_env
     (sample_request JUndefined JUndefined (Some ''s3cret'')) one_user_store) \<noteq>
     Inr (failure 401 ''Unauthorized'')"
proof -
  have a: "admin_route GET_thoughts_all"
    by simp
  have k: "ADMIN_API_KEY sample_env = Some ''s3cret''"
    by (simp add: sample_env_def)
  have h: "header_x_api_key (sample_request JUndefined JUndefined x) = x" for x
    by (simp add: sample_request_def)
  note t = admin_gate_strict_equality [OF a, of _ sample_env one_user_store]
  have 1: "handle GET_thoughts_all sample_env
      (sample_request JUndefined JUndefined (Some ''s3creT'')) one_user_store =
      (Inr (failure 401 ''Unauthorized''), one_user_store)"
    using t [of "sample_request JUndefined JUndefined (Some ''s3creT'')"]
    by (simp add: k h)
  have 2: "handle GET_thoughts_all sample_env
      (sample_request JUndefined JUndefined None) one_user_store =
      (Inr (failure 401 ''Unauthorized''), one_user_store)"
    using t [of "sample_request JUndefined JUndefined None"]
    by (simp add: k h)
  have 3: "handle GET_thoughts_all sample_env
      (sample_request JUndefined JUndefined (Some [])) one_user_store =
      (Inr (failure 401 ''Unauthorized''), one_user_store)"
    using t [of "sample_request JUndefined JUndefined (Some [])"]
    by (simp add: k h)
  have 4: "fst (handle GET_thoughts_all sample_env
      (sample_request JUndefined JUndefined (Some ''s3cret'')) one_user_store) \<noteq>
      Inr (failure 401 ''Unauthorized'')"
    using t [of "sample_request JUndefined JUndefined (Some ''s3cret'')"]
    by (simp add: k h)
  from a 1 2 3 4 show ?thesis
    by (intro conjI)
qed



section \<open>The catch clauses\<close>

lemma handle_eq:
  "handle r e req s =
     (case r of
        GET_health \<Rightarrow> handle_try r e req s
      | POST_waitlist \<Rightarrow> try_catch ''Server error. Please try again.'' (handle_try r e req s)
      | POST_thoughts \<Rightarrow> try_catch ''Server error. Please try again.'' (handle_try r e req s)
      | _ \<Rightarrow> try_catch ''Server error'' (handle_try r e req s))"
  by (cases r)
    (simp_all add: admin_defs post_waitlist_def post_thoughts_def get_waitlist_count_def
      get_thoughts_count_def)

lemma counts_down:
  assumes "\<not> connected s"
  shows "get_waitlist_count s = (Inr (failure 500 ''Server error''), s)"
    and "get_thoughts_count s = (Inr (failure 500 ''Server error''), s)"
  using assms
  by (simp_all add: get_waitlist_count_def get_thoughts_count_def get_waitlist_count_try_def
      get_thoughts_count_try_def Waitlist_countDocuments_def Thoughts_countDocuments_def
      try_catch_def)

lemma status_or_failure:
  assumes "fst (handle r e req s) = Inr resp"
  shows "status resp = 200 \<or> status resp = 201 \<or> (\<exists>msg. resp = failure (status resp) msg)"
proof -
  have f: "status (failure c m) = c" for c m
    by (simp add: failure_def)
  have st: "status (waitlist_added n) = 201" "status thoughts_saved = 201"
    "status (count_response n) = 200" "status (list_response ds) = 200"
    "status (csv_response fn t) = 200" "status health_ok = 200" for n ds fn t
    by (simp_all add: waitlist_added_def thoughts_saved_def count_response_def
        list_response_def csv_response_def health_ok_def)
  show ?thesis
    using assms
    by (cases r)
      (auto simp: f st post_waitlist_def post_waitlist_try_def post_thoughts_def
        post_thoughts_try_def try_catch_def get_waitlist_count_def get_waitlist_count_try_def
        get_thoughts_count_def get_thoughts_count_try_def admin_defs get_health_def
        split: if_splits sum.splits option.splits)
qed

text \<open>
  C8. On every route, for every request and store, the handler ends with a response
  and never with an error. Whenever the \<open>try\<close> block throws, the response is the
  catch clause's: status 500 and the body \<open>{success: false, message}\<close>. In
  particular both count queries answer so when the store is unreachable. Every
  response that is not a success (200 or 201) has a body of that form.
\<close>

theorem errors_caught_at_boundary:
  "(\<exists>resp. fst (handle r e req s) = Inr resp) \<and>
   (\<forall>err. fst (handle_try r e req s) = Inl err \<longrightarrow>
      (\<exists>msg. handle r e req s = (Inr (failure 500 msg), snd (handle_try r e req s)) \<and>
         response_keys (failure 500 msg) = [''success'', ''message''])) \<and>
   (\<not> connected s \<longrightarrow>
      fst (get_waitlist_count_try s) = Inl StorageError \<and>
      fst (get_thoughts_count_try s) = Inl StorageError \<and>
      get_waitlist_count s = (Inr (failure 500 ''Server error''), s) \<and>
      get_thoughts_count s = (Inr (failure 500 ''Server error''), s)) \<and>
   (\<forall>resp. fst (handle r e req s) = Inr resp \<longrightarrow>
      status resp = 200 \<or> status resp = 201 \<or> (\<exists>msg. resp = failure (status resp) msg))"
proof -
  have a: "\<exists>resp. fst (try_catch msg x) = Inr resp" for msg x
    by (cases "fst x") (simp_all add: try_catch_def)
  have 1: "\<exists>resp. fst (handle r e req s) = Inr resp"
    using a by (cases r) (auto simp: handle_eq get_health_def)
  have b: "fst x = Inl err \<Longrightarrow> try_catch msg x = (Inr (failure 500 msg), snd x)" for msg x err
    by (simp add: try_catch_def)
  have k: "response_keys (failure 500 msg) = [''success'', ''message'']" for msg
    by (simp add: response_keys_def failure_def)
  have 2: "\<exists>msg. handle r e req s = (Inr (failure 500 msg), snd (handle_try r e req s)) \<and>
      response_keys (failure 500 msg) = [''success'', ''message'']"
    if "fst (handle_try r e req s) = Inl err" for err
    using that b [OF that] k by (cases r) (auto simp: handle_eq get_health_def)
  have 3: "fst (get_waitlist_count_try s) = Inl StorageError \<and>
      fst (get_thoughts_count_try s) = Inl StorageError" if "\<not> connected s"
    using that
    by (simp add: get_waitlist_count_try_def get_thoughts_count_try_def
        Waitlist_countDocuments_def Thoughts_countDocuments_def)
  from 1 2 3 counts_down [of s] status_or_failure [of r e req s] show ?thesis
    by blast
qed

theorem errors_caught_at_boundary_witness:
  "fst (handle_try POST_waitlist sample_env (sample_request (JNumber 7) JUndefined None)
     one_user_store) = Inl TypeError \<and>
   handle POST_waitlist sample_env (sample_request (JNumber 7) JUndefined None)
     one_user_store = (Inr (failure 500 ''Server error. Please try again.''), one_user_store) \<and>
   \<not> connected unreachable_store \<and>
   get_waitlist_count unreachable_store =
     (Inr (failure 500 ''Server error''), unreachable_store)"
proof -
  let ?req = "sample_request (JNumber 7) JUndefined None"
  have t0: "post_waitlist_try sample_env ?req one_user_store = (Inl TypeError, one_user_store)"
    by (simp add: post_waitlist_try_def sample_request_def)
  then have t: "fst (handle_try POST_waitlist sample_env ?req one_user_store) = Inl TypeError"
    by simp
  have d: "\<not> connected unreachable_store"
    by (simp add: unreachable_store_def)
  obtain msg where
    "handle POST_waitlist sample_env ?req one_user_store =
      (Inr (failure 500 msg), snd (handle_try POST_waitlist sample_env ?req one_user_store))"
    using errors_caught_at_boundary [of POST_waitlist sample_env ?req one_user_store] t
    by auto
  then have 1: "handle POST_waitlist sample_env ?req one_user_store =
      (Inr (failure 500 ''Server error. Please try again.''), one_user_store)"
    by (simp add: t0 post_waitlist_def try_catch_def)
  have 2: "get_waitlist_count unreachable_store =
      (Inr (failure 500 ''Server error''), unreachable_store)"
    using errors_caught_at_boundary [of GET_health sample_env ?req unreachable_store] d
    by simp
  from t d 1 2 show ?thesis
    by simp
qed

section \<open>Startup\<close>

declare connectDB.simps [simp del]

lemma connectDB_0:
  "connectDB 0 attempt t =
     \<lparr>attempts = [t], db_connected = fst (attempt t), exited = False\<rparr>"
  by (subst connectDB.simps) simp

lemma connectDB_Suc:
  "connectDB (Suc n) attempt t =
     (if fst (attempt t) then \<lparr>attempts = [t], db_connected = True, exited = False\<rparr>
      else (connectDB n attempt (t + snd (attempt t) + 5000))
             \<lparr>attempts := t # attempts (connectDB n attempt (t + snd (attempt t) + 5000))\<rparr>)"
  by (subst connectDB.simps) (simp add: Let_def)

lemma connectDB_attempts: "length (attempts (connectDB n attempt t)) \<le> Suc n"
  by (induction n arbitrary: t) (simp_all add: connectDB_0 connectDB_Suc)

lemma connectDB_running: "\<not> exited (connectDB n attempt t)"
  by (induction n arbitrary: t) (simp_all add: connectDB_0 connectDB_Suc)

lemma connectDB_exhausted:
  "\<not> db_connected (connectDB n attempt t) \<Longrightarrow>
   length (attempts (connectDB n attempt t)) = Suc n"
  by (induction n arbitrary: t) (simp_all add: connectDB_0 connectDB_Suc split: if_splits)

lemma connectDB_first: "attempts (connectDB n attempt t) ! 0 = t"
  by (cases n) (simp_all add: connectDB_0 connectDB_Suc)

lemma connectDB_delay:
  "Suc i < length (attempts (connectDB n attempt t)) \<Longrightarrow>
   attempts (connectDB n attempt t) ! Suc i =
     attempts (connectDB n attempt t) ! i +
     snd (attempt (attempts (connectDB n attempt t) ! i)) + 5000"
proof (induction n arbitrary: t i)
  case 0
  then show ?case by (simp add: connectDB_0)
next
  case (Suc n)
  show ?case
  proof (cases "fst (attempt t)")
    case True
    with Suc.prems show ?thesis by (simp add: connectDB_Suc)
  next
    case False
    let ?later = "connectDB n attempt (t + snd (attempt t) + 5000)"
    have as: "attempts (connectDB (Suc n) attempt t) = t # attempts ?later"
      using False by (simp add: connectDB_Suc)
    show ?thesis
    proof (cases i)
      case 0
      then show ?thesis
        by (simp add: as connectDB_first)
    next
      case (Suc j)
      with Suc.prems have "Suc j < length (attempts ?later)"
        by (simp add: as)
      from Suc.IH [OF this] Suc show ?thesis
        by (simp add: as)
    qed
  qed
qed

lemma down_waitlist:
  assumes "\<not> connected s" and "truthy (body_email req)"
  shows "post_waitlist e req s = (Inr (failure 500 ''Server error. Please try again.''), s)"
  using assms
  by (cases "body_email req")
    (simp_all add: post_waitlist_def post_waitlist_try_def try_catch_def Waitlist_findOne_def)

lemma down_thoughts:
  assumes "\<not> connected s"
  shows "post_thoughts e req s = (Inr (failure 500 ''Server error. Please try again.''), s) \<or>
    (\<exists>msg. post_thoughts e req s = (Inr (failure 400 msg), s))"
  using assms
  by (auto simp add: post_thoughts_def post_thoughts_try_def try_catch_def Thoughts_save_def
      split: sum.splits)

lemma down_thoughts_valid:
  assumes "\<not> connected s" and "body_message req = JString m" and "10 \<le> length (trim m)"
    and "\<not> truthy (body_email req)"
  shows "post_thoughts e req s = (Inr (failure 500 ''Server error. Please try again.''), s)"
proof -
  have "10 \<le> length m"
    using assms(3) length_trim_le [of m] by simp
  then show ?thesis
    using assms
    by (auto simp add: post_thoughts_def post_thoughts_try_def try_catch_def Thoughts_save_def
        normalizedEmail_def invalid_email_format_def split: sum.splits)
qed

lemma down_admin:
  assumes "\<not> connected s" and "admin_route r" and "\<not> unauthorized e req"
  shows "handle r e req s = (Inr (failure 500 ''Server error''), s)"
  using assms
  by (cases r)
    (simp_all add: admin_defs try_catch_def Waitlist_find_sorted_def Thoughts_find_sorted_def)

text \<open>
  C9. \<open>connectDB()\<close> calls \<open>mongoose.connect\<close> at most four times, a first attempt and
  three retries, each retry 5000 ms after the attempt before it has failed, and never
  exits the process. When the last attempt has failed too, there have been exactly
  four, the connection is down, and from then on the count queries, a waitlist
  submission with an email, a thoughts submission that passes the handler's checks and
  an admin request with the right key are all answered with 500 and the body
  \<open>{success: false, message}\<close> (a thoughts submission is answered with 500 or, when the
  handler rejects it before saving, with 400), while the health check still answers
  200.
\<close>

theorem startup_retries_bounded:
  assumes "st = connectDB 3 attempt t" and "s' = boot attempt t s"
  shows "length (attempts st) \<le> 4 \<and> \<not> exited st \<and>
     (\<forall>i. Suc i < length (attempts st) \<longrightarrow>
        attempts st ! Suc i = attempts st ! i + snd (attempt (attempts st ! i)) + 5000) \<and>
     (\<not> db_connected st \<longrightarrow>
        length (attempts st) = 4 \<and> \<not> connected s' \<and>
        get_waitlist_count s' = (Inr (failure 500 ''Server error''), s') \<and>
        get_thoughts_count s' = (Inr (failure 500 ''Server error''), s') \<and>
        (truthy (body_email req) \<longrightarrow>
           post_waitlist e req s' = (Inr (failure 500 ''Server error. Please try again.''), s')) \<and>
        (post_thoughts e req s' = (Inr (failure 500 ''Server error. Please try again.''), s') \<or>
         (\<exists>msg. post_thoughts e req s' = (Inr (failure 400 msg), s'))) \<and>
        (\<forall>m. body_message req = JString m \<and> 10 \<le> length (trim m) \<and>
            \<not> truthy (body_email req) \<longrightarrow>
           post_thoughts e req s' = (Inr (failure 500 ''Server error. Please try again.''), s')) \<and>
        (admin_route r \<and> \<not> unauthorized e req \<longrightarrow>
           handle r e req s' = (Inr (failure 500 ''Server error''), s')) \<and>
        get_health s' = (Inr health_ok, s') \<and> status health_ok = 200)"
proof -
  have 1: "length (attempts st) \<le> 4"
    using connectDB_attempts [of 3 attempt t] by (simp add: assms(1))
  have 2: "\<not> exited st"
    by (simp add: assms(1) connectDB_running)
  have 3: "attempts st ! Suc i = attempts st ! i + snd (attempt (attempts st ! i)) + 5000"
    if "Suc i < length (attempts st)" for i
    using that unfolding assms(1) by (rule connectDB_delay)
  have 4: "length (attempts st) = 4" if "\<not> db_connected st"
    using that connectDB_exhausted [of 3 attempt t] by (simp add: assms(1))
  have 5: "\<not> connected s'" if "\<not> db_connected st"
    using that by (simp add: assms boot_def)
  have 6: "get_health s' = (Inr health_ok, s') \<and> status health_ok = 200"
    by (simp add: get_health_def health_ok_def)
  show ?thesis
    using 1 2 3 4 5 6 counts_down [of s'] down_waitlist [of s' req e] down_thoughts [of s' e req]
      down_thoughts_valid [of s' req _ e] down_admin [of s' r e req]
    by blast
qed

theorem startup_retries_bounded_witness:
  "attempts (connectDB 3 failing_connect 0) = [0, 35000, 70000, 105000] \<and>
   \<not> db_connected (connectDB 3 failing_connect 0) \<and>
   \<not> exited (connectDB 3 failing_connect 0) \<and>
   boot failing_connect 0 one_user_store = unreachable_store \<and>
   get_waitlist_count unreachable_store =
     (Inr (failure 500 ''Server error''), unreachable_store) \<and>
   post_waitlist sample_env (sample_request (JString ''user@example.com'') JUndefined None)
     unreachable_store =
     (Inr (failure 500 ''Server error. Please try again.''), unreachable_store) \<and>
   get_health unreachable_store = (Inr health_ok, unreachable_store)"
proof -
  let ?req = "sample_request (JString ''user@example.com'') JUndefined None"
  have c: "connectDB 3 failing_connect 0 =
      \<lparr>attempts = [0, 35000, 70000, 105000], db_connected = False, exited = False\<rparr>"
    by (simp add: numeral_3_eq_3 connectDB_0 connectDB_Suc failing_connect_def)
  have b: "unreachable_store = boot failing_connect 0 one_user_store"
    by (simp add: boot_def c unreachable_store_def one_user_store_def)
  have d: "\<not> db_connected (connectDB 3 failing_connect 0)"
    by (simp add: c)
  have r: "truthy (body_email ?req)"
    by (simp add: sample_request_def)
  note t = startup_retries_bounded
    [OF refl b, where e = sample_env and req = ?req and r = GET_health]
  from t d have 1: "get_waitlist_count unreachable_store =
      (Inr (failure 500 ''Server error''), unreachable_store)"
    by blast
  from t d r have 2: "post_waitlist sample_env ?req unreachable_store =
      (Inr (failure 500 ''Server error. Please try again.''), unreachable_store)"
    by blast
  from t d have 3: "get_health unreachable_store = (Inr health_ok, unreachable_store)"
    by blast
  from t have 4: "\<not> exited (connectDB 3 failing_connect 0)"
    by blast
  have 5: "attempts (connectDB 3 failing_connect 0) = [0, 35000, 70000, 105000]"
    by (simp add: c)
  from 5 d 4 b [symmetric] 1 2 3 show ?thesis
    by (intro conjI)
qed

section \<open>Listings and exports\<close>







section \<open>The CSV export of the thoughts\<close>
















end
